theory Spec2Isabelle
  imports Main
begin

section \<open>Status codes and variable handles\<close>

text \<open>
  The service reports every outcome as an \<open>int\<close> status: \<open>EOK\<close> or an errno value.
  A variable handle is an unsigned number handed out by the variable server;
  \<open>VAR_INVALID\<close> is the value the variable server uses for "no such variable".
  The numbers are those of the system headers and of the variable server's header
  (\<open>EOK\<close> and \<open>VAR_INVALID\<close> are zero there); the source only compares them.
\<close>

definition EOK :: int where "EOK = 0"
definition ENOENT :: int where "ENOENT = 2"
definition EBADF :: int where "EBADF = 9"
definition ENOMEM :: int where "ENOMEM = 12"
definition EACCES :: int where "EACCES = 13"
definition EINVAL :: int where "EINVAL = 22"
definition EMSGSIZE :: int where "EMSGSIZE = 90"
definition ENOTSUP :: int where "ENOTSUP = 95"

type_synonym VAR_HANDLE = nat

definition VAR_INVALID :: VAR_HANDLE where "VAR_INVALID = 0"

section \<open>The environment of the service\<close>

text \<open>
  The service talks to three collaborators that are not part of its source: the
  operating system (files, descriptors, POSIX message queues, the allocator), the
  variable server and the template rendering engine. They are modelled by one
  explicit \<open>World\<close> value that every operation takes and returns, and by a record
  of the variable server's answers.

  Every call that the source makes to a collaborator is appended to \<open>trace\<close>, so that
  "how often was the renderer called" or "was a message sent" can be read off the
  world after a call.
\<close>

datatype OFlag = O_RDONLY | O_WRONLY | O_CREAT | O_APPEND | O_TRUNC

datatype Event =
    EvPrintf string
  | EvOpen string "OFlag list" int
  | EvClose int
  | EvLseek int
  | EvRender int int
  | EvMqOpen string int
  | EvMqSend int string int
  | EvMqClose int

text \<open>An open descriptor: a file with its offset and append flag, or a queue.\<close>

datatype Desc = DFile string nat bool | DQueue string

record World =
  files :: "(string \<times> string) list"
  denied :: "string list"
  descs :: "(int \<times> Desc) list"
  queues :: "(string \<times> nat \<times> string list) list"
  errno :: int
  heap :: nat
  trace :: "Event list"

text \<open>
  The variable server behind a \<open>VARSERVER_HANDLE\<close>: name resolution
  (\<open>VAR_FindByName\<close>), the status of a notification request (\<open>VAR_Notify\<close>) and the
  rendering engine (\<open>TEMPLATE_FileToFile\<close>), which turns the text of a template
  into a status and the bytes it writes to the destination.
\<close>

record VarServer =
  vs_find :: "string \<Rightarrow> VAR_HANDLE"
  vs_notify :: "VAR_HANDLE \<Rightarrow> int"
  vs_render :: "string \<Rightarrow> int \<times> string"

fun upd :: "'k \<Rightarrow> 'v \<Rightarrow> ('k \<times> 'v) list \<Rightarrow> ('k \<times> 'v) list" where
  "upd k v [] = [(k, v)]"
| "upd k v (p # ps) = (if fst p = k then (k, v) # ps else p # upd k v ps)"

fun first_free :: "nat \<Rightarrow> nat \<Rightarrow> int list \<Rightarrow> int" where
  "first_free 0 n used = int n"
| "first_free (Suc k) n used =
     (if int n \<in> set used then first_free k (Suc n) used else int n)"

text \<open>POSIX hands out the lowest descriptor number that is not in use.\<close>

definition new_desc :: "World \<Rightarrow> int" where
  "new_desc w = first_free (length (descs w)) 0 (map fst (descs w))"

definition log_event :: "Event \<Rightarrow> World \<Rightarrow> World" where
  "log_event e w = w\<lparr>trace := trace w @ [e]\<rparr>"

text \<open>
  \<open>open(path, flags)\<close>. Reading needs an existing file. Writing needs a path that
  is not denied and either an existing file or \<open>O_CREAT\<close>. An existing file
  keeps its content unless it is opened for writing with \<open>O_TRUNC\<close>; the offset
  starts at zero, and \<open>O_APPEND\<close> makes every write go to the end.
\<close>

definition os_open :: "string \<Rightarrow> OFlag list \<Rightarrow> World \<Rightarrow> int \<times> World" where
  "os_open path flags w =
     (let present = (map_of (files w) path \<noteq> None);
          wr = (O_WRONLY \<in> set flags);
          ok = (if wr then path \<notin> set (denied w) \<and> (present \<or> O_CREAT \<in> set flags)
                else present)
      in if ok then
           (let d = new_desc w;
                fs = (if present then
                        (if wr \<and> O_TRUNC \<in> set flags then upd path [] (files w)
                         else files w)
                      else files w @ [(path, [])])
            in (d, log_event (EvOpen path flags d)
                     (w\<lparr>files := fs,
                        descs := (d, DFile path 0 (O_APPEND \<in> set flags)) # descs w\<rparr>)))
         else
           (-1, log_event (EvOpen path flags (-1))
                  (w\<lparr>errno := (if wr \<and> path \<in> set (denied w) then EACCES else ENOENT)\<rparr>)))"

definition os_close :: "int \<Rightarrow> World \<Rightarrow> World" where
  "os_close d w =
     log_event (EvClose d) (w\<lparr>descs := filter (\<lambda>p. fst p \<noteq> d) (descs w)\<rparr>)"

definition os_lseek_set :: "int \<Rightarrow> nat \<Rightarrow> World \<Rightarrow> World" where
  "os_lseek_set d off w =
     log_event (EvLseek d)
       (case map_of (descs w) d of
          Some (DFile path pos app) \<Rightarrow> w\<lparr>descs := upd d (DFile path off app) (descs w)\<rparr>
        | _ \<Rightarrow> w)"

text \<open>Writing \<open>data\<close> at offset \<open>pos\<close> replaces what is there and keeps the rest.\<close>

definition write_at :: "string \<Rightarrow> nat \<Rightarrow> string \<Rightarrow> string" where
  "write_at content pos data =
     take pos content @ replicate (pos - length content) (CHR 0x00) @ data
       @ drop (pos + length data) content"

definition os_write :: "int \<Rightarrow> string \<Rightarrow> World \<Rightarrow> World" where
  "os_write d data w =
     (case map_of (descs w) d of
        Some (DFile path pos app) \<Rightarrow>
          (case map_of (files w) path of
             Some c \<Rightarrow>
               (let p = (if app then length c else pos)
                in w\<lparr>files := upd path (write_at c p data) (files w),
                     descs := upd d (DFile path (p + length data) app) (descs w)\<rparr>)
           | None \<Rightarrow> w)
      | _ \<Rightarrow> w)"

text \<open>
  \<open>TEMPLATE_FileToFile(hVarServer, fd_in, fd_out)\<close>: the engine reads the template
  from \<open>fd_in\<close>, and writes the rendered bytes to \<open>fd_out\<close> at that descriptor's
  offset. It writes the text and nothing else (no terminator).
\<close>

definition TEMPLATE_FileToFile ::
    "VarServer option \<Rightarrow> int \<Rightarrow> int \<Rightarrow> World \<Rightarrow> int \<times> World" where
  "TEMPLATE_FileToFile hVarServer fd_in fd_out w =
     (let w0 = log_event (EvRender fd_in fd_out) w
      in case hVarServer of
           None \<Rightarrow> (EINVAL, w0)
         | Some vs \<Rightarrow>
             (case map_of (descs w0) fd_in of
                Some (DFile pin off app) \<Rightarrow>
                  (case map_of (files w0) pin of
                     Some src \<Rightarrow>
                       (let (rc, out) = vs_render vs (drop off src)
                        in (rc, os_write fd_out out w0))
                   | None \<Rightarrow> (EBADF, w0))
              | _ \<Rightarrow> (EBADF, w0)))"

text \<open>
  POSIX message queues: \<open>mq_open\<close> without \<open>O_CREAT\<close> needs an existing queue;
  \<open>mq_send\<close> fails with \<open>EMSGSIZE\<close> when the message is longer than the queue's
  message size, and with \<open>EBADF\<close> on a descriptor that is not an open queue.
\<close>

definition os_mq_open :: "string \<Rightarrow> World \<Rightarrow> int \<times> World" where
  "os_mq_open qname w =
     (case map_of (queues w) qname of
        Some q \<Rightarrow>
          (let d = new_desc w
           in (d, log_event (EvMqOpen qname d) (w\<lparr>descs := (d, DQueue qname) # descs w\<rparr>)))
      | None \<Rightarrow> (-1, log_event (EvMqOpen qname (-1)) (w\<lparr>errno := ENOENT\<rparr>)))"

definition os_mq_send :: "int \<Rightarrow> string \<Rightarrow> nat \<Rightarrow> World \<Rightarrow> int \<times> World" where
  "os_mq_send d pData len w =
     (case map_of (descs w) d of
        Some (DQueue qname) \<Rightarrow>
          (case map_of (queues w) qname of
             Some (msgsize, msgs) \<Rightarrow>
               (if len \<le> msgsize then
                  (0, log_event (EvMqSend d (take len pData) 0)
                        (w\<lparr>queues := upd qname (msgsize, msgs @ [take len pData]) (queues w)\<rparr>))
                else (-1, log_event (EvMqSend d (take len pData) (-1)) (w\<lparr>errno := EMSGSIZE\<rparr>)))
           | None \<Rightarrow> (-1, log_event (EvMqSend d (take len pData) (-1)) (w\<lparr>errno := EBADF\<rparr>)))
      | _ \<Rightarrow> (-1, log_event (EvMqSend d (take len pData) (-1)) (w\<lparr>errno := EBADF\<rparr>)))"

definition os_mq_close :: "int \<Rightarrow> World \<Rightarrow> World" where
  "os_mq_close d w =
     log_event (EvMqClose d) (w\<lparr>descs := filter (\<lambda>p. fst p \<noteq> d) (descs w)\<rparr>)"

text \<open>\<open>calloc\<close>: succeeds while the heap has room.\<close>

definition calloc :: "World \<Rightarrow> bool \<times> World" where
  "calloc w = (if heap w = 0 then (False, w) else (True, w\<lparr>heap := heap w - 1\<rparr>))"

text \<open>\<open>strlen\<close>: the bytes before the first NUL.\<close>

definition strlen :: "string \<Rightarrow> nat" where
  "strlen s = length (takeWhile (\<lambda>c. c \<noteq> CHR 0x00) s)"

section \<open>The data model of the service\<close>

datatype TemplateType = TMPL_FD | TMPL_MQ

record TriggerVar =
  hVar :: VAR_HANDLE
  name :: "string option"

record Template =
  pTriggers :: "TriggerVar list"
  templateFileName :: "string option"
  target :: "string option"
  tmplType :: TemplateType
  fd :: int
  mq :: int
  keep_open :: bool
  append_flag :: bool

record TemplateSvcState =
  hVarServer :: "VarServer option"
  verbose :: bool
  pFileName :: "string option"
  pVarFP :: "string option"
  varFd :: int
  varfpSize :: nat
  pTemplates :: "Template list"

text \<open>
  \<open>VARFP_GetData\<close>: the scratch buffer is a shared memory object; \<open>pVarFP\<close> names
  it, \<open>varFd\<close> is a descriptor on it, and its data pointer sees the same bytes.
\<close>

definition VARFP_GetData :: "string option \<Rightarrow> World \<Rightarrow> string option" where
  "VARFP_GetData p w = (case p of None \<Rightarrow> None | Some n \<Rightarrow> map_of (files w) n)"

section \<open>Rendering to a stream\<close>

text \<open>
  The sinks and the dispatcher take \<open>pState\<close> and \<open>pTemplate\<close> by pointer and
  return \<open>EINVAL\<close> for a null pointer. Every call in the service passes the
  address of the global state and of a node of the registry, so the model passes
  the objects themselves; a sink returns the template with its descriptor field as
  the call left it. A null \<open>templateFileName\<close> or \<open>target\<close> is \<open>None\<close>. The
  \<open>printf\<close> of the sinks is the event \<open>EvPrintf\<close>.
\<close>

definition PrintTemplateFD ::
    "TemplateSvcState \<Rightarrow> Template \<Rightarrow> World \<Rightarrow> int \<times> Template \<times> World" where
  "PrintTemplateFD pState pTemplate w =
     (case templateFileName pTemplate of
        None \<Rightarrow> (ENOENT, pTemplate, w)
      | Some pTemplateFile \<Rightarrow>
     (case target pTemplate of
        None \<Rightarrow> (ENOENT, pTemplate, w)
      | Some pTarget \<Rightarrow>
          (let w0 = log_event (EvPrintf pTemplateFile) w;
               (sfd, w1) = os_open pTemplateFile [O_RDONLY] w0;
               (t1, w2) =
                 (if fd pTemplate = -1 then
                    (let flags = [O_WRONLY, O_CREAT]
                                   @ (if append_flag pTemplate then [O_APPEND] else []);
                         (d, w') = os_open pTarget flags w1
                     in (pTemplate\<lparr>fd := d\<rparr>, w'))
                  else (pTemplate, w1));
               (result, t2, w3) =
                 (if sfd > 0 \<and> fd t1 > 0 then
                    (let (r, w') = TEMPLATE_FileToFile (hVarServer pState) sfd (fd t1) w2
                     in if keep_open t1 = False
                        then (r, t1\<lparr>fd := -1\<rparr>, os_close (fd t1) w')
                        else (r, t1, w'))
                  else (ENOENT, t1, w2));
               w4 = (if sfd > 0 then os_close sfd w3 else w3)
           in (result, t2, w4))))"

section \<open>Rendering to a message queue\<close>

text \<open>The block of \<open>PrintTemplateMQ\<close> that runs once the render has returned \<open>EOK\<close>.\<close>

definition PrintTemplateMQ_send ::
    "TemplateSvcState \<Rightarrow> Template \<Rightarrow> string \<Rightarrow> World \<Rightarrow> int \<times> Template \<times> World" where
  "PrintTemplateMQ_send pState pTemplate pTarget w =
     (let (t1, w1) =
            (if mq pTemplate \<le> 0 then
               (let (q, w') = os_mq_open pTarget w in (pTemplate\<lparr>mq := q\<rparr>, w'))
             else (pTemplate, w))
      in if mq t1 > 0 then
           (case VARFP_GetData (pVarFP pState) w1 of
              Some pData \<Rightarrow>
                (let (rc, w2) = os_mq_send (mq t1) pData (strlen pData) w1;
                     result = (if rc \<noteq> 0 then errno w2 else EOK)
                 in if keep_open t1 = False \<or> result \<noteq> EOK
                    then (result, t1\<lparr>mq := -1\<rparr>, os_mq_close (mq t1) w2)
                    else (result, t1, w2))
            | None \<Rightarrow> (EOK, t1, w1))
         else (EBADF, t1, w1))"

definition PrintTemplateMQ ::
    "TemplateSvcState \<Rightarrow> Template \<Rightarrow> World \<Rightarrow> int \<times> Template \<times> World" where
  "PrintTemplateMQ pState pTemplate w =
     (case templateFileName pTemplate of
        None \<Rightarrow> (ENOENT, pTemplate, w)
      | Some pTemplateFile \<Rightarrow>
     (case target pTemplate of
        None \<Rightarrow> (ENOENT, pTemplate, w)
      | Some pTarget \<Rightarrow>
          (if varFd pState > 0 then
             (let w0 = log_event (EvPrintf pTemplateFile) w;
                  (sfd, w1) = os_open pTemplateFile [O_RDONLY] w0;
                  (result, t2, w3) =
                    (if sfd > 0 then
                       (let w' = os_lseek_set (varFd pState) 0 w1;
                            (r, w'') = TEMPLATE_FileToFile (hVarServer pState) sfd
                                         (varFd pState) w'
                        in if r = EOK
                           then PrintTemplateMQ_send pState pTemplate pTarget w''
                           else (r, pTemplate, w''))
                     else (ENOENT, pTemplate, w1));
                  w4 = (if sfd > 0 then os_close sfd w3 else w3)
              in (result, t2, w4))
           else (ENOENT, pTemplate, w))))"

section \<open>Dispatch\<close>

text \<open>
  \<open>TemplateType\<close> has the two values the source assigns, so the \<open>default\<close>
  branch of the \<open>switch\<close> in \<open>ProcessTemplate\<close> (\<open>ENOTSUP\<close>) is never taken.
\<close>

text \<open>
  The loop of \<open>ProcessTemplate\<close> over the trigger list: \<open>result\<close>, the template
  (whose descriptor fields the sinks change) and the world are the loop state.
\<close>

fun ProcessTemplate_loop ::
    "TemplateSvcState \<Rightarrow> VAR_HANDLE \<Rightarrow> TriggerVar list \<Rightarrow> int \<times> Template \<times> World
       \<Rightarrow> int \<times> Template \<times> World" where
  "ProcessTemplate_loop pState h [] acc = acc"
| "ProcessTemplate_loop pState h (pTriggerVar # rest) (result, pTemplate, w) =
     ProcessTemplate_loop pState h rest
       (if hVar pTriggerVar = h then
          (case tmplType pTemplate of
             TMPL_FD \<Rightarrow> PrintTemplateFD pState pTemplate w
           | TMPL_MQ \<Rightarrow> PrintTemplateMQ pState pTemplate w)
        else (result, pTemplate, w))"

definition ProcessTemplate ::
    "TemplateSvcState \<Rightarrow> Template \<Rightarrow> VAR_HANDLE \<Rightarrow> World \<Rightarrow> int \<times> Template \<times> World" where
  "ProcessTemplate pState pTemplate h w =
     (if h \<noteq> VAR_INVALID
      then ProcessTemplate_loop pState h (pTriggers pTemplate) (EINVAL, pTemplate, w)
      else (EINVAL, pTemplate, w))"

fun ProcessTemplates_loop ::
    "TemplateSvcState \<Rightarrow> VAR_HANDLE \<Rightarrow> Template list \<Rightarrow> int \<times> World
       \<Rightarrow> int \<times> Template list \<times> World" where
  "ProcessTemplates_loop pState h [] (result, w) = (result, [], w)"
| "ProcessTemplates_loop pState h (pTemplate # rest) (result, w) =
     (let (rc, t', w') = ProcessTemplate pState pTemplate h w;
          (result', ts', w'') =
            ProcessTemplates_loop pState h rest (if rc \<noteq> EOK then rc else result, w')
      in (result', t' # ts', w''))"

definition ProcessTemplates ::
    "TemplateSvcState \<Rightarrow> VAR_HANDLE \<Rightarrow> World \<Rightarrow> int \<times> TemplateSvcState \<times> World" where
  "ProcessTemplates pState h w =
     (let (result, ts, w') = ProcessTemplates_loop pState h (pTemplates pState) (EOK, w)
      in (result, pState\<lparr>pTemplates := ts\<rparr>, w'))"

section \<open>Building the registry from the configuration\<close>

text \<open>
  The configuration tree, as the JSON library hands it to the service: a variable
  node holds a string (whose pointer may be null), a number or a boolean; an array
  holds nodes; an object holds named nodes.
\<close>

datatype JNode =
    JStr "string option"
  | JNum int
  | JBool bool
  | JArray "JNode list"
  | JObject "(string \<times> JNode) list"

definition JSON_Find :: "JNode \<Rightarrow> string \<Rightarrow> JNode option" where
  "JSON_Find pNode key = (case pNode of JObject kvs \<Rightarrow> map_of kvs key | _ \<Rightarrow> None)"

definition JSON_GetStr :: "JNode \<Rightarrow> string \<Rightarrow> string option" where
  "JSON_GetStr pNode key =
     (case JSON_Find pNode key of Some (JStr s) \<Rightarrow> s | _ \<Rightarrow> None)"

definition JSON_GetBool :: "JNode \<Rightarrow> string \<Rightarrow> bool" where
  "JSON_GetBool pNode key =
     (case JSON_Find pNode key of Some (JBool b) \<Rightarrow> b | _ \<Rightarrow> False)"

text \<open>
  \<open>JSON_Iterate(array, fn, arg)\<close> calls \<open>fn\<close> on every element of the array, in
  order, and reports \<open>EOK\<close> unless a call failed; it fails with \<open>EINVAL\<close> when
  there is no array. The callback's \<open>arg\<close> is the state it updates.
\<close>

fun JSON_Iterate_nodes ::
    "(JNode \<Rightarrow> 'a \<Rightarrow> int \<times> 'a) \<Rightarrow> JNode list \<Rightarrow> int \<times> 'a \<Rightarrow> int \<times> 'a" where
  "JSON_Iterate_nodes fn [] acc = acc"
| "JSON_Iterate_nodes fn (pNode # rest) (result, arg) =
     (let (rc, arg') = fn pNode arg
      in JSON_Iterate_nodes fn rest (if rc \<noteq> EOK then rc else result, arg'))"

definition JSON_Iterate ::
    "JNode option \<Rightarrow> (JNode \<Rightarrow> 'a \<Rightarrow> int \<times> 'a) \<Rightarrow> 'a \<Rightarrow> int \<times> 'a" where
  "JSON_Iterate pArray fn arg =
     (case pArray of
        Some (JArray ns) \<Rightarrow> JSON_Iterate_nodes fn ns (EOK, arg)
      | _ \<Rightarrow> (EINVAL, arg))"

text \<open>
  \<open>SetupTriggers\<close>: the callback for one element of the \<open>trigger\<close> array. Its
  argument is the head of the template's trigger list; the allocation is zeroed, so
  a new trigger's handle is \<open>0\<close>.
\<close>

definition SetupTriggers ::
    "JNode \<Rightarrow> TriggerVar list \<times> World \<Rightarrow> int \<times> TriggerVar list \<times> World" where
  "SetupTriggers pNode arg =
     (case arg of (trigs, w) \<Rightarrow>
        (case pNode of
           JStr (Some str) \<Rightarrow>
             (case calloc w of
                (True, w') \<Rightarrow> (EOK, \<lparr>hVar = 0, name = Some str\<rparr> # trigs, w')
              | (False, w') \<Rightarrow> (ENOMEM, trigs, w'))
         | _ \<Rightarrow> (EINVAL, trigs, w)))"

section \<open>Requesting notifications\<close>

definition SetupTriggerNotification ::
    "VarServer option \<Rightarrow> TriggerVar \<Rightarrow> int \<times> TriggerVar" where
  "SetupTriggerNotification hServer pTriggerVar =
     (case hServer of
        None \<Rightarrow> (EINVAL, pTriggerVar)
      | Some vs \<Rightarrow>
          (case name pTriggerVar of
             None \<Rightarrow> (EINVAL, pTriggerVar)
           | Some n \<Rightarrow>
               (let tv = pTriggerVar\<lparr>hVar := vs_find vs n\<rparr>
                in if hVar tv \<noteq> VAR_INVALID
                   then (vs_notify vs (hVar tv), tv)
                   else (ENOENT, tv))))"

text \<open>
  The loop of \<open>SetupTriggerNotifications\<close>: the local \<open>result\<close> and the triggers
  with their handles filled in.
\<close>

fun SetupTriggerNotifications_loop ::
    "VarServer option \<Rightarrow> TriggerVar list \<Rightarrow> int \<Rightarrow> int \<times> TriggerVar list" where
  "SetupTriggerNotifications_loop hServer [] result = (result, [])"
| "SetupTriggerNotifications_loop hServer (pTriggerVar # rest) result =
     (let (rc, tv) = SetupTriggerNotification hServer pTriggerVar;
          (result', tvs) =
            SetupTriggerNotifications_loop hServer rest (if rc \<noteq> EOK then rc else result)
      in (result', tv # tvs))"

text \<open>
  \<open>SetupTriggerNotifications\<close> computes \<open>result\<close> and reaches its closing brace
  without a \<open>return\<close> statement: the function hands no value back. The model
  returns the value as an option, \<open>None\<close> where the source returns nothing, next to
  the triggers, which the loop has updated in place.
\<close>

definition SetupTriggerNotifications ::
    "VarServer option \<Rightarrow> TriggerVar list \<Rightarrow> int option \<times> TriggerVar list" where
  "SetupTriggerNotifications hServer pTriggerVars =
     (if hServer \<noteq> None \<and> pTriggerVars \<noteq> []
      then (let (result, tvs) = SetupTriggerNotifications_loop hServer pTriggerVars EOK
            in (None, tvs))
      else (None, pTriggerVars))"

text \<open>
  \<open>SetupTemplate\<close>: the callback for one entry of the \<open>config\<close> array. Its
  argument is the service state (and, in the model, the world).
\<close>

definition SetupTemplate ::
    "JNode \<Rightarrow> TemplateSvcState \<times> World \<Rightarrow> int \<times> TemplateSvcState \<times> World" where
  "SetupTemplate pNode arg =
     (case arg of (pState, w) \<Rightarrow>
        (let template = JSON_GetStr pNode ''template'';
             type = JSON_GetStr pNode ''type'';
             tt = (case type of
                     Some s \<Rightarrow> (if s = ''mq'' then TMPL_MQ else TMPL_FD)
                   | None \<Rightarrow> TMPL_FD);
             target' = JSON_GetStr pNode ''target'';
             append' = JSON_GetBool pNode ''append'';
             keep_open' = JSON_GetBool pNode ''keep_open''
         in case calloc w of
              (False, w1) \<Rightarrow> (EINVAL, pState, w1)
            | (True, w1) \<Rightarrow>
                (let pTemplate = \<lparr>pTriggers = [], templateFileName = template,
                                  target = target', tmplType = tt, fd = -1, mq = 0,
                                  keep_open = keep_open', append_flag = append'\<rparr>;
                     (rc, trigs, w2) =
                       JSON_Iterate (JSON_Find pNode ''trigger'') SetupTriggers ([], w1);
                     trigs' = (if rc = EOK
                               then snd (SetupTriggerNotifications (hVarServer pState) trigs)
                               else trigs)
                 in (EOK,
                     pState\<lparr>pTemplates := pTemplate\<lparr>pTriggers := trigs'\<rparr> # pTemplates pState\<rparr>,
                     w2))))"

text \<open>The part of \<open>main\<close> that builds the registry from the \<open>config\<close> array.\<close>

definition load_config ::
    "JNode option \<Rightarrow> TemplateSvcState \<Rightarrow> World \<Rightarrow> int \<times> TemplateSvcState \<times> World" where
  "load_config cfg pState w = JSON_Iterate cfg SetupTemplate (pState, w)"

section \<open>Reading the trace\<close>

fun is_render :: "Event \<Rightarrow> bool" where
  "is_render (EvRender a b) = True"
| "is_render _ = False"

fun is_send :: "Event \<Rightarrow> bool" where
  "is_send (EvMqSend d m rc) = True"
| "is_send _ = False"

text \<open>How often the rendering engine has been called, and how many sends were made.\<close>

definition renders :: "World \<Rightarrow> nat" where
  "renders w = length (filter is_render (trace w))"

definition sends :: "World \<Rightarrow> nat" where
  "sends w = length (filter is_send (trace w))"

text \<open>The calls made between an earlier world and a later one.\<close>

definition new_events :: "World \<Rightarrow> World \<Rightarrow> Event list" where
  "new_events w w' = drop (length (trace w)) (trace w')"

section \<open>A small installation\<close>

text \<open>
  A variable server that knows \<open>/sys/a\<close> (handle 5) and \<open>/sys/b\<close> (handle 6) and
  whose engine copies the template text; a world with three template files, the
  scratch buffer of twelve zero bytes on descriptor 3, a queue \<open>/q\<close>, a queue
  \<open>/tiny\<close> that takes messages of at most four bytes, and one path that cannot be
  written.
\<close>

definition ex_vs :: VarServer where
  "ex_vs = \<lparr>vs_find = (\<lambda>n. if n = ''/sys/a'' then 5 else if n = ''/sys/b'' then 6
                             else VAR_INVALID),
            vs_notify = (\<lambda>h. EOK), vs_render = (\<lambda>s. (EOK, s))\<rparr>"

definition ex_world :: World where
  "ex_world =
     \<lparr>files = [(''/t/a.tmpl'', ''hi''), (''/t/long.tmpl'', ''AAAAAAAA''),
               (''/t/short.tmpl'', ''BB''),
               (''templatesvc_0'', replicate 12 (CHR 0x00))],
      denied = [''/ro/out''],
      descs = [(0, DFile ''/dev/null'' 0 False), (1, DFile ''/dev/null'' 0 False),
               (2, DFile ''/dev/null'' 0 False), (3, DFile ''templatesvc_0'' 0 False)],
      queues = [(''/q'', 64, []), (''/tiny'', 4, [])], errno = 0, heap = 10,
      trace = []\<rparr>"

definition ex_state :: TemplateSvcState where
  "ex_state =
     \<lparr>hVarServer = Some ex_vs, verbose = False,
      pFileName = Some ''/etc/templatesvc.json'', pVarFP = Some ''templatesvc_0'',
      varFd = 3, varfpSize = 12, pTemplates = []\<rparr>"

text \<open>A template as \<open>SetupTemplate\<close> leaves it, with the given trigger handles.\<close>

definition ex_template ::
    "VAR_HANDLE list \<Rightarrow> string \<Rightarrow> string \<Rightarrow> TemplateType \<Rightarrow> bool \<Rightarrow> bool \<Rightarrow> Template" where
  "ex_template hs src dst ty keep app =
     \<lparr>pTriggers = map (\<lambda>h. \<lparr>hVar = h, name = Some ''/sys/x''\<rparr>) hs,
      templateFileName = Some src, target = Some dst, tmplType = ty, fd = -1, mq = 0,
      keep_open = keep, append_flag = app\<rparr>"

text \<open>The same service once the variable behind the template has the value \<open>v\<close>:
  the engine writes the template text followed by \<open>v\<close>.\<close>

definition ex_state_val :: "string \<Rightarrow> TemplateSvcState" where
  "ex_state_val v =
     ex_state\<lparr>hVarServer := Some (ex_vs\<lparr>vs_render := (\<lambda>s. (EOK, s @ v))\<rparr>)\<rparr>"

text \<open>
  A configuration of two entries: the first has no \<open>template\<close> field, the second
  is a complete queue entry with one trigger that resolves and one that does not.
\<close>

definition ex_entries :: "JNode list" where
  "ex_entries =
     [JObject [(''trigger'', JArray [JStr (Some ''/sys/a'')]),
               (''target'', JStr (Some ''/tmp/out''))],
      JObject [(''trigger'', JArray [JStr (Some ''/sys/b''), JStr (Some ''/sys/none'')]),
               (''template'', JStr (Some ''/t/a.tmpl'')),
               (''type'', JStr (Some ''mq'')),
               (''target'', JStr (Some ''/q'')),
               (''keep_open'', JBool True)]]"

definition ex_config :: JNode where
  "ex_config = JArray ex_entries"

text \<open>A configuration whose only entry names the trigger \<open>/sys/a\<close> twice.\<close>

definition ex_twice :: JNode where
  "ex_twice = JArray
     [JObject [(''trigger'', JArray [JStr (Some ''/sys/a''), JStr (Some ''/sys/a'')]),
               (''template'', JStr (Some ''/t/a.tmpl'')),
               (''target'', JStr (Some ''/tmp/out'')),
               (''append'', JBool True)]]"

text \<open>
  The allocations one configuration entry can ask for: the template record and one
  trigger record for each element of its \<open>trigger\<close> array.
\<close>

definition entry_allocs :: "JNode \<Rightarrow> nat" where
  "entry_allocs e =
     Suc (case JSON_Find e ''trigger'' of Some (JArray ns) \<Rightarrow> length ns | _ \<Rightarrow> 0)"

text \<open>Stream and queue templates used below: rendered once and closed, or kept open;
  a queue too small for the message; a queue that does not exist.\<close>

definition ex_fd_once :: Template where
  "ex_fd_once = ex_template [5] ''/t/a.tmpl'' ''/tmp/out'' TMPL_FD False False"

definition ex_fd_kept :: Template where
  "ex_fd_kept = ex_template [5] ''/t/a.tmpl'' ''/tmp/out'' TMPL_FD True False"

definition ex_mq_once :: Template where
  "ex_mq_once = ex_template [5] ''/t/long.tmpl'' ''/q'' TMPL_MQ False False"

definition ex_mq_tiny :: Template where
  "ex_mq_tiny = ex_template [5] ''/t/long.tmpl'' ''/tiny'' TMPL_MQ True False"

definition ex_mq_none :: Template where
  "ex_mq_none = ex_template [5] ''/t/long.tmpl'' ''/noq'' TMPL_MQ True False"

section \<open>Facts used for evaluation\<close>

lemmas os_defs = os_open_def os_close_def os_lseek_set_def os_write_def write_at_def
  TEMPLATE_FileToFile_def os_mq_open_def os_mq_send_def os_mq_close_def calloc_def
  strlen_def log_event_def new_desc_def VARFP_GetData_def

lemmas errno_defs = EOK_def ENOENT_def EBADF_def ENOMEM_def EACCES_def EINVAL_def
  EMSGSIZE_def ENOTSUP_def VAR_INVALID_def

lemmas ex_defs = ex_vs_def ex_world_def ex_state_def ex_template_def

lemmas config_defs = load_config_def JSON_Iterate_def SetupTemplate_def SetupTriggers_def
  SetupTriggerNotifications_def SetupTriggerNotification_def JSON_Find_def
  JSON_GetStr_def JSON_GetBool_def calloc_def

section \<open>Dispatch of one notification\<close>

lemma ProcessTemplate_loop_skip:
  "hVar tv \<noteq> h \<Longrightarrow>
   ProcessTemplate_loop pState h (pre @ tv # post) acc =
   ProcessTemplate_loop pState h (pre @ post) acc"
proof (induction pre arbitrary: acc)
  case Nil
  then show ?case by (cases acc) simp
next
  case (Cons a pre)
  show ?case by (cases acc) (simp add: Cons.IH [OF Cons.prems])
qed

text \<open>
  C1. The claim: in one dispatch pass a template that matches the notified handle is
  rendered exactly once, also when several of its own trigger entries carry that
  handle. The loop of \<open>ProcessTemplate\<close> calls the sink for every matching entry
  and does not leave the loop after a match. Loading \<open>ex_twice\<close> gives one
  template with two trigger entries, both resolved to handle 5; one notification of
  handle 5 then calls the rendering engine twice, and the target, opened for
  append, receives the text twice.
\<close>

theorem ProcessTemplate_renders_once_per_matching_entry:
  "(case load_config (Some ex_twice) ex_state ex_world of
      (rc, st, w) \<Rightarrow>
        (case ProcessTemplates st 5 w of
           (r, st', w') \<Rightarrow>
             (rc, map (map hVar \<circ> pTriggers) (pTemplates st), r, renders w',
              map_of (files w') ''/tmp/out'')))
   = (EOK, [[5, 5]], EOK, 2, Some ''hihi'')"
  by (simp add: config_defs ex_twice_def ProcessTemplates_def ProcessTemplate_def
        PrintTemplateFD_def renders_def ex_defs os_defs errno_defs Let_def)

text \<open>
  C2. The claim: \<open>ProcessTemplates\<close> visits every template and returns \<open>EOK\<close> when
  every matched template rendered successfully. \<open>ProcessTemplate\<close> starts from
  \<open>EINVAL\<close> and only a render replaces it, so a template that does not match the
  handle reports \<open>EINVAL\<close>, which \<open>ProcessTemplates\<close> takes for a failure: with
  one template triggered by handle 5 and one by handle 6, a notification of handle 5
  renders the first successfully, renders nothing else, and returns \<open>EINVAL\<close>.
\<close>

theorem ProcessTemplates_unmatched_template_is_failure:
  "(case ProcessTemplates
           (ex_state\<lparr>pTemplates :=
              [ex_template [5] ''/t/a.tmpl'' ''/tmp/out'' TMPL_FD False False,
               ex_template [6] ''/t/a.tmpl'' ''/tmp/out2'' TMPL_FD False False]\<rparr>)
           5 ex_world of
      (r, s, w) \<Rightarrow> (r, renders w, map_of (files w) ''/tmp/out''))
   = (EINVAL, 1, Some ''hi'')"
  by (simp add: ProcessTemplates_def ProcessTemplate_def PrintTemplateFD_def renders_def
        ex_defs os_defs errno_defs Let_def)

text \<open>
  C10. A notification that carries \<open>VAR_INVALID\<close> makes \<open>ProcessTemplate\<close> return
  \<open>EINVAL\<close> with the template and the world untouched (no render, no call to any
  collaborator). A trigger whose name does not resolve is left with the handle
  \<open>VAR_INVALID\<close> and the status \<open>ENOENT\<close>; such a trigger never causes a render:
  for every notified handle, dispatch behaves as the loop over the template's other
  triggers alone.
\<close>

theorem ProcessTemplate_invalid_handle_never_renders:
  "ProcessTemplate pState pTemplate VAR_INVALID w = (EINVAL, pTemplate, w) \<and>
   (vs_find vs n = VAR_INVALID \<longrightarrow> name tv0 = Some n \<longrightarrow>
      SetupTriggerNotification (Some vs) tv0 = (ENOENT, tv0\<lparr>hVar := VAR_INVALID\<rparr>)) \<and>
   (hVar tv = VAR_INVALID \<longrightarrow> pTriggers pTemplate = pre @ tv # post \<longrightarrow>
      ProcessTemplate pState pTemplate h w =
        (if h = VAR_INVALID then (EINVAL, pTemplate, w)
         else ProcessTemplate_loop pState h (pre @ post) (EINVAL, pTemplate, w)))"
  by (simp add: ProcessTemplate_def SetupTriggerNotification_def ProcessTemplate_loop_skip)

theorem ProcessTemplate_invalid_handle_never_renders_witness:
  "ProcessTemplate ex_state (ex_template [0, 5] ''/t/a.tmpl'' ''/tmp/out'' TMPL_FD False False)
       VAR_INVALID ex_world
     = (EINVAL, ex_template [0, 5] ''/t/a.tmpl'' ''/tmp/out'' TMPL_FD False False, ex_world) \<and>
   SetupTriggerNotification (Some ex_vs) \<lparr>hVar = 7, name = Some ''/sys/none''\<rparr>
     = (ENOENT, \<lparr>hVar = VAR_INVALID, name = Some ''/sys/none''\<rparr>) \<and>
   ProcessTemplate ex_state (ex_template [0, 5] ''/t/a.tmpl'' ''/tmp/out'' TMPL_FD False False)
       5 ex_world
     = ProcessTemplate_loop ex_state 5 [\<lparr>hVar = 5, name = Some ''/sys/x''\<rparr>]
         (EINVAL, ex_template [0, 5] ''/t/a.tmpl'' ''/tmp/out'' TMPL_FD False False, ex_world)"
  using ProcessTemplate_invalid_handle_never_renders
          [of ex_state "ex_template [0, 5] ''/t/a.tmpl'' ''/tmp/out'' TMPL_FD False False"
              ex_world ex_vs "''/sys/none''" "\<lparr>hVar = 7, name = Some ''/sys/none''\<rparr>"
              "\<lparr>hVar = 0, name = Some ''/sys/x''\<rparr>" "[]"
              "[\<lparr>hVar = 5, name = Some ''/sys/x''\<rparr>]" 5]
  by (simp add: ex_vs_def ex_template_def VAR_INVALID_def)

section \<open>Requesting notifications for a trigger list\<close>

text \<open>
  C9. The claim: for a non-empty trigger list and a valid connection,
  \<open>SetupTriggerNotifications\<close> returns the aggregated status. The function computes
  that status in its local \<open>result\<close> and ends without returning it: on no input
  does it hand a value back. For the list of an unknown name and \<open>/sys/a\<close> the loop
  arrives at \<open>ENOENT\<close> and fills in the handles, and the caller gets no status.
\<close>

theorem SetupTriggerNotifications_returns_nothing:
  "fst (SetupTriggerNotifications hServer pTriggerVars) = None \<and>
   SetupTriggerNotifications_loop (Some ex_vs)
       [\<lparr>hVar = 0, name = Some ''/sys/none''\<rparr>, \<lparr>hVar = 0, name = Some ''/sys/a''\<rparr>] EOK
     = (ENOENT, [\<lparr>hVar = VAR_INVALID, name = Some ''/sys/none''\<rparr>,
                 \<lparr>hVar = 5, name = Some ''/sys/a''\<rparr>])"
  by (simp add: SetupTriggerNotifications_def SetupTriggerNotification_def ex_vs_def
        errno_defs Let_def split: prod.splits)

section \<open>The stream sink\<close>

text \<open>
  C4. The claim: with \<open>append\<close> off, each open of the target discards its prior
  content, so a shorter render leaves no bytes of an earlier, longer one. The
  target is opened with \<open>O_WRONLY | O_CREAT\<close> (and \<open>O_APPEND\<close> when \<open>append\<close> is
  on) and never with \<open>O_TRUNC\<close>: the new text overwrites the start of the old one
  and the rest stays. Two renders of one template (\<open>append\<close> and \<open>keep_open\<close> off),
  the first while the variable is \<open>=1000\<close>, the second while it is \<open>=7\<close>, leave
  \<open>hi=7000\<close> in the target.
\<close>

theorem PrintTemplateFD_overwrite_keeps_stale_tail:
  "(case PrintTemplateFD (ex_state_val ''=1000'')
           (ex_template [5] ''/t/a.tmpl'' ''/tmp/out.txt'' TMPL_FD False False) ex_world of
      (r1, t1, w1) \<Rightarrow>
        (case PrintTemplateFD (ex_state_val ''=7'') t1 w1 of
           (r2, t2, w2) \<Rightarrow>
             (r1, r2, map_of (files w1) ''/tmp/out.txt'', map_of (files w2) ''/tmp/out.txt'')))
   = (EOK, EOK, Some ''hi=1000'', Some ''hi=7000'')"
  by (simp add: PrintTemplateFD_def ex_state_val_def ex_defs os_defs errno_defs Let_def)

text \<open>
  C5. The claim: when the source or the target cannot be opened, the call fails, no
  render is attempted and the sink state is unchanged. \<open>PrintTemplateFD\<close> opens the
  target before it looks at the source descriptor, and closes the target only inside
  the branch that renders: with a template file that does not exist and a target
  that can be opened, the call returns \<open>ENOENT\<close> without rendering, and a sink that was
  closed (\<open>fd = -1\<close>, \<open>keep_open\<close> off) is left holding the open descriptor 4.
\<close>

theorem PrintTemplateFD_missing_source_leaves_target_open:
  "(case PrintTemplateFD ex_state
           (ex_template [5] ''/t/missing.tmpl'' ''/tmp/out.txt'' TMPL_FD False False) ex_world of
      (r, t, w) \<Rightarrow> (r, renders w, fd t, map_of (descs w) (fd t)))
   = (ENOENT, 0, 4, Some (DFile ''/tmp/out.txt'' 0 False))"
  by (simp add: PrintTemplateFD_def renders_def ex_defs os_defs errno_defs Let_def)

section \<open>The queue sink\<close>

text \<open>
  C8. The claim: the scratch buffer is rewound before each render and the message of
  a render holds only bytes of that render. The rewind is there (\<open>lseek\<close> before each
  call of the engine), but the buffer is neither cleared nor terminated after the
  render, and the message is the buffer up to its first NUL: a queue template that
  renders \<open>AAAAAAAA\<close> followed by one that renders \<open>BB\<close> sends \<open>BBAAAAAA\<close> as the
  second message.
\<close>

theorem PrintTemplateMQ_short_after_long_leaks:
  "(case PrintTemplateMQ ex_state
           (ex_template [5] ''/t/long.tmpl'' ''/q'' TMPL_MQ False False) ex_world of
      (r1, t1, w1) \<Rightarrow>
        (case PrintTemplateMQ ex_state
                (ex_template [6] ''/t/short.tmpl'' ''/q'' TMPL_MQ False False) w1 of
           (r2, t2, w2) \<Rightarrow>
             (r1, r2, map_of (queues w2) ''/q'',
              filter (\<lambda>e. e = EvLseek 3 \<or> is_render e) (trace w2))))
   = (EOK, EOK, Some (64, [''AAAAAAAA'', ''BBAAAAAA'']),
      [EvLseek 3, EvRender 4 3, EvLseek 3, EvRender 4 3])"
  by (simp add: PrintTemplateMQ_def PrintTemplateMQ_send_def ex_defs os_defs errno_defs
        Let_def)

section \<open>Loading the configuration\<close>

lemma SetupTriggers_heap:
  "SetupTriggers n (trigs, w) = (rc, trigs', w') \<Longrightarrow> heap w - 1 \<le> heap w'"
  by (auto simp: SetupTriggers_def calloc_def split: JNode.splits option.splits if_splits)

lemma iterate_triggers_heap:
  "JSON_Iterate_nodes SetupTriggers ns (r, trigs, w) = (r', trigs', w') \<Longrightarrow>
   heap w - length ns \<le> heap w'"
proof (induction ns arbitrary: r trigs w)
  case Nil
  then show ?case by simp
next
  case (Cons n ns)
  obtain rc t1 w1 where s: "SetupTriggers n (trigs, w) = (rc, t1, w1)"
    by (cases "SetupTriggers n (trigs, w)") auto
  with Cons.prems
  have "JSON_Iterate_nodes SetupTriggers ns (if rc \<noteq> EOK then rc else r, t1, w1)
          = (r', trigs', w')"
    by simp
  from Cons.IH [OF this] SetupTriggers_heap [OF s] show ?case by simp
qed

text \<open>
  With room for one allocation, \<open>SetupTemplate\<close> succeeds on any entry and puts one
  template, carrying the entry's \<open>template\<close> and \<open>target\<close> as they are, at the head of
  the registry.
\<close>

lemma SetupTemplate_adds:
  assumes "0 < heap w" and "SetupTemplate e (st, w) = (rc, st', w')"
  shows "rc = EOK \<and> heap w - entry_allocs e \<le> heap w' \<and>
     map templateFileName (pTemplates st') =
       JSON_GetStr e ''template'' # map templateFileName (pTemplates st) \<and>
     map target (pTemplates st') = JSON_GetStr e ''target'' # map target (pTemplates st)"
proof -
  obtain w1 where c: "calloc w = (True, w1)" and h1: "heap w1 = heap w - 1"
    using assms(1) by (auto simp: calloc_def)
  obtain r2 trigs w2
    where it: "JSON_Iterate (JSON_Find e ''trigger'') SetupTriggers ([], w1) = (r2, trigs, w2)"
    by (cases "JSON_Iterate (JSON_Find e ''trigger'') SetupTriggers ([], w1)") auto
  have h2: "heap w1 - (case JSON_Find e ''trigger'' of
                         Some (JArray ns) \<Rightarrow> length ns | _ \<Rightarrow> 0) \<le> heap w2"
    using it
    by (auto simp: JSON_Iterate_def split: option.splits JNode.splits
          dest: iterate_triggers_heap)
  from assms(2) c it have "rc = EOK" "w' = w2"
    "map templateFileName (pTemplates st') =
       JSON_GetStr e ''template'' # map templateFileName (pTemplates st)"
    "map target (pTemplates st') = JSON_GetStr e ''target'' # map target (pTemplates st)"
    by (auto simp: SetupTemplate_def Let_def)
  with h1 h2 show ?thesis by (simp add: entry_allocs_def)
qed

lemma iterate_templates:
  "sum_list (map entry_allocs es) \<le> heap w \<Longrightarrow>
   JSON_Iterate_nodes SetupTemplate es (r, st, w) = (r', st', w') \<Longrightarrow>
   r' = r \<and>
   map templateFileName (pTemplates st') =
     rev (map (\<lambda>e. JSON_GetStr e ''template'') es) @ map templateFileName (pTemplates st) \<and>
   map target (pTemplates st') =
     rev (map (\<lambda>e. JSON_GetStr e ''target'') es) @ map target (pTemplates st)"
proof (induction es arbitrary: r st w)
  case Nil
  then show ?case by simp
next
  case (Cons e es)
  obtain rc st1 w1 where s: "SetupTemplate e (st, w) = (rc, st1, w1)"
    by (cases "SetupTemplate e (st, w)") auto
  have pos: "0 < heap w" using Cons.prems(1) by (simp add: entry_allocs_def)
  note a = SetupTemplate_adds [OF pos s]
  from a have rc: "rc = EOK" by simp
  from a have hl: "heap w - entry_allocs e \<le> heap w1" by simp
  have "entry_allocs e + sum_list (map entry_allocs es) \<le> heap w"
    using Cons.prems(1) by simp
  with hl have hp: "sum_list (map entry_allocs es) \<le> heap w1" by arith
  from Cons.prems(2) s rc
  have "JSON_Iterate_nodes SetupTemplate es (r, st1, w1) = (r', st', w')"
    by simp
  from Cons.IH [OF hp this] a show ?case by simp
qed

text \<open>
  C3. The claim: an entry whose \<open>template\<close> or \<open>target\<close> is missing is skipped and
  adds no template, while the other entries are processed. \<open>SetupTemplate\<close> does not
  look at the two fields: the first entry of \<open>ex_config\<close> has no \<open>template\<close> and
  still becomes a template of the registry, with a null file name.
\<close>

theorem load_config_keeps_entry_without_template:
  "map templateFileName
       (pTemplates (fst (snd (load_config (Some ex_config) ex_state ex_world))))
   = [Some ''/t/a.tmpl'', None]"
  by (simp add: config_defs ex_config_def ex_entries_def ex_defs errno_defs Let_def)

text \<open>
  C3, as the code has it. While memory lasts, every entry of the configuration array
  (also one without \<open>template\<close> or \<open>target\<close>) adds one template to the head of the
  registry, with the entry's \<open>template\<close> and \<open>target\<close> stored as they are (null
  when missing), and the load reports \<open>EOK\<close>; no entry stops the ones after it. The
  missing field shows when the template is rendered: both sinks return \<open>ENOENT\<close>
  and touch neither the template nor the world.
\<close>

theorem load_config_adds_every_entry:
  "(sum_list (map entry_allocs es) \<le> heap w \<longrightarrow>
    load_config (Some (JArray es)) pState w = (r, s', w') \<longrightarrow>
      r = EOK \<and>
      map templateFileName (pTemplates s') =
        rev (map (\<lambda>e. JSON_GetStr e ''template'') es)
          @ map templateFileName (pTemplates pState) \<and>
      map target (pTemplates s') =
        rev (map (\<lambda>e. JSON_GetStr e ''target'') es) @ map target (pTemplates pState)) \<and>
   (templateFileName t = None \<or> target t = None \<longrightarrow>
      PrintTemplateFD st t w0 = (ENOENT, t, w0) \<and> PrintTemplateMQ st t w0 = (ENOENT, t, w0))"
  by (auto simp: load_config_def JSON_Iterate_def PrintTemplateFD_def PrintTemplateMQ_def
        dest!: iterate_templates split: option.splits)

theorem load_config_adds_every_entry_witness:
  "sum_list (map entry_allocs ex_entries) \<le> heap ex_world \<and>
   fst (load_config (Some (JArray ex_entries)) ex_state ex_world) = EOK \<and>
   map target
       (pTemplates (fst (snd (load_config (Some (JArray ex_entries)) ex_state ex_world))))
     = [Some ''/q'', Some ''/tmp/out''] \<and>
   PrintTemplateFD ex_state
       ((ex_template [5] ''/t/a.tmpl'' ''/tmp/out'' TMPL_FD False False)
          \<lparr>templateFileName := None\<rparr>) ex_world
     = (ENOENT,
        (ex_template [5] ''/t/a.tmpl'' ''/tmp/out'' TMPL_FD False False)
          \<lparr>templateFileName := None\<rparr>,
        ex_world)"
  using load_config_adds_every_entry
    [of ex_entries ex_world ex_state
        "fst (load_config (Some (JArray ex_entries)) ex_state ex_world)"
        "fst (snd (load_config (Some (JArray ex_entries)) ex_state ex_world))"
        "snd (snd (load_config (Some (JArray ex_entries)) ex_state ex_world))"
        "(ex_template [5] ''/t/a.tmpl'' ''/tmp/out'' TMPL_FD False False)
           \<lparr>templateFileName := None\<rparr>"
        ex_state ex_world]
  by (simp add: entry_allocs_def JSON_Find_def JSON_GetStr_def ex_entries_def ex_defs)

section \<open>What the collaborators' calls do to the trace and to the descriptor table\<close>

lemma trace_log_event [simp]: "trace (log_event e w) = trace w @ [e]"
  by (simp add: log_event_def)

lemma descs_log_event [simp]: "descs (log_event e w) = descs w"
  by (simp add: log_event_def)

lemma new_eventsI: "trace w' = trace w @ evs \<Longrightarrow> new_events w w' = evs"
  by (simp add: new_events_def)

lemma renders_log_event [simp]:
  "renders (log_event e w) = (if is_render e then Suc (renders w) else renders w)"
  by (simp add: renders_def)

lemma os_open_trace: "os_open p f w = (d, w1) \<Longrightarrow> trace w1 = trace w @ [EvOpen p f d]"
  by (auto simp: os_open_def Let_def split: if_splits)

lemma os_open_renders: "os_open p f w = (d, w1) \<Longrightarrow> renders w1 = renders w"
  by (simp add: renders_def os_open_trace)

lemma os_close_trace [simp]: "trace (os_close d w) = trace w @ [EvClose d]"
  by (simp add: os_close_def)

lemma os_close_renders [simp]: "renders (os_close d w) = renders w"
  by (simp add: renders_def)

lemma os_close_keys [simp]: "fst ` set (descs (os_close d w)) = fst ` set (descs w) - {d}"
  by (auto simp: os_close_def)

lemma os_lseek_set_trace [simp]: "trace (os_lseek_set d off w) = trace w @ [EvLseek d]"
  by (simp add: os_lseek_set_def split: option.splits Desc.splits)

lemma os_write_trace [simp]: "trace (os_write d s w) = trace w"
  by (simp add: os_write_def Let_def split: option.splits Desc.splits)

lemma upd_keys: "fst ` set (upd k v xs) = insert k (fst ` set xs)"
  by (induction xs) auto

lemma map_of_key: "map_of xs k = Some v \<Longrightarrow> k \<in> fst ` set xs"
  by (metis fst_conv image_eqI map_of_SomeD)

lemma os_write_keys [simp]: "fst ` set (descs (os_write d s w)) = fst ` set (descs w)"
  by (auto simp: os_write_def Let_def upd_keys insert_absorb
        split: option.splits Desc.splits dest!: map_of_key)

lemma TEMPLATE_FileToFile_trace:
  "TEMPLATE_FileToFile h a b w = (r, w1) \<Longrightarrow> trace w1 = trace w @ [EvRender a b]"
  by (auto simp: TEMPLATE_FileToFile_def Let_def split: option.splits Desc.splits prod.splits)

lemma TEMPLATE_FileToFile_renders:
  "TEMPLATE_FileToFile h a b w = (r, w1) \<Longrightarrow> renders w1 = Suc (renders w)"
  by (simp add: renders_def TEMPLATE_FileToFile_trace)

lemma TEMPLATE_FileToFile_keys:
  "TEMPLATE_FileToFile h a b w = (r, w1) \<Longrightarrow> fst ` set (descs w1) = fst ` set (descs w)"
  by (clarsimp simp: TEMPLATE_FileToFile_def Let_def
        split: option.splits Desc.splits prod.splits)

lemma map_of_upd: "map_of (upd k v xs) k' = (if k' = k then Some v else map_of xs k')"
  by (induction xs) auto

lemma files_log_event [simp]: "files (log_event e w) = files w"
  by (simp add: log_event_def)

lemma os_open_files:
  "os_open p f w = (d, w1) \<Longrightarrow> map_of (files w) n = Some c \<Longrightarrow>
   \<exists>c'. map_of (files w1) n = Some c'"
  by (auto simp: os_open_def Let_def map_of_upd split: if_splits)

lemma os_lseek_set_files [simp]: "files (os_lseek_set d off w) = files w"
  by (simp add: os_lseek_set_def split: option.splits Desc.splits)

lemma os_write_files:
  "map_of (files w) n = Some c \<Longrightarrow> \<exists>c'. map_of (files (os_write d s w)) n = Some c'"
  by (auto simp: os_write_def Let_def map_of_upd split: option.splits Desc.splits)

lemma TEMPLATE_FileToFile_files:
  "TEMPLATE_FileToFile h a b w = (r, w1) \<Longrightarrow> map_of (files w) n = Some c \<Longrightarrow>
   \<exists>c'. map_of (files w1) n = Some c'"
  by (auto simp: TEMPLATE_FileToFile_def Let_def
        split: option.splits Desc.splits prod.splits intro: os_write_files)

text \<open>The descriptor that \<open>open\<close> and \<open>mq_open\<close> hand out is not one that is in use.\<close>

lemma first_free_fresh:
  "card (set used \<inter> {int n..}) \<le> k \<Longrightarrow> first_free k n used \<notin> set used"
proof (induction k arbitrary: n)
  case 0
  then have "set used \<inter> {int n..} = {}" by simp
  then show ?case by auto
next
  case (Suc k)
  show ?case
  proof (cases "int n \<in> set used")
    case False
    then show ?thesis by simp
  next
    case True
    have sub: "set used \<inter> {int (Suc n)..} \<subseteq> (set used \<inter> {int n..}) - {int n}"
      by auto
    have "card ((set used \<inter> {int n..}) - {int n}) = card (set used \<inter> {int n..}) - 1"
      using True by (intro card_Diff_singleton) simp
    moreover
    have "card (set used \<inter> {int (Suc n)..}) \<le> card ((set used \<inter> {int n..}) - {int n})"
      by (rule card_mono [OF _ sub]) simp
    moreover have "0 < card (set used \<inter> {int n..})"
      using True by (simp add: card_gt_0_iff) auto
    ultimately have "card (set used \<inter> {int (Suc n)..}) \<le> k"
      using Suc.prems by linarith
    from Suc.IH [OF this] True show ?thesis by simp
  qed
qed

lemma new_desc_fresh: "new_desc w \<notin> fst ` set (descs w)"
proof -
  have "card (set (map fst (descs w)) \<inter> {int 0..}) \<le> card (set (map fst (descs w)))"
    by (rule card_mono) auto
  also have "\<dots> \<le> length (map fst (descs w))" by (rule card_length)
  finally
  have "first_free (length (descs w)) 0 (map fst (descs w)) \<notin> set (map fst (descs w))"
    by (intro first_free_fresh) simp
  then show ?thesis by (simp add: new_desc_def)
qed

lemma os_open_descs:
  "os_open p f w = (d, w1) \<Longrightarrow>
   (d = -1 \<and> descs w1 = descs w) \<or>
   (d \<notin> fst ` set (descs w) \<and> (\<exists>e. descs w1 = (d, e) # descs w))"
  using new_desc_fresh [of w]
  by (auto simp: os_open_def Let_def split: if_splits)

section \<open>The stream sink and \<open>keep_open\<close>\<close>

lemma PrintTemplateFD_closes_after_render:
  "PrintTemplateFD pState t w = (r, t', w') \<Longrightarrow> keep_open t = False \<Longrightarrow>
   renders w < renders w' \<Longrightarrow> fd t' = -1"
  by (auto simp: PrintTemplateFD_def Let_def split: option.splits prod.splits if_splits
        dest!: os_open_renders TEMPLATE_FileToFile_renders)

lemma PrintTemplateFD_stays_open:
  assumes "PrintTemplateFD pState t w = (r, t', w')"
    and "keep_open t" and "r = EOK"
    and "fd t = -1 \<or> fd t \<in> fst ` set (descs w)"
  shows "0 < fd t' \<and> fd t' \<in> fst ` set (descs w') \<and> (fd t \<noteq> -1 \<longrightarrow> fd t' = fd t)"
  using assms
  by (auto simp: PrintTemplateFD_def Let_def errno_defs
        split: option.splits prod.splits if_splits
        dest!: os_open_descs TEMPLATE_FileToFile_keys)
     (metis fst_conv image_eqI)

text \<open>
  Every call of the rendering engine made by \<open>PrintTemplateFD\<close> is followed by the
  close of its source descriptor, and with \<open>keep_open\<close> off by the close of its
  destination descriptor: neither is an open descriptor when the call returns.
\<close>

lemma PrintTemplateFD_closes_destination:
  "PrintTemplateFD pState t w = (r, t', w') \<Longrightarrow> keep_open t = False \<Longrightarrow>
   EvRender a b \<in> set (new_events w w') \<Longrightarrow>
   fd t' = -1 \<and> EvClose b \<in> set (new_events w w') \<and> b \<notin> fst ` set (descs w')"
  by (auto simp: PrintTemplateFD_def Let_def new_events_def os_close_def
        split: option.splits prod.splits if_splits
        dest!: os_open_trace TEMPLATE_FileToFile_trace)

lemma PrintTemplateFD_closes_source:
  "PrintTemplateFD pState t w = (r, t', w') \<Longrightarrow>
   EvRender a b \<in> set (new_events w w') \<Longrightarrow>
   EvClose a \<in> set (new_events w w') \<and> a \<notin> fst ` set (descs w')"
  by (auto simp: PrintTemplateFD_def Let_def new_events_def os_close_def
        split: option.splits prod.splits if_splits
        dest!: os_open_trace TEMPLATE_FileToFile_trace)

lemma PrintTemplateFD_render_event:
  "PrintTemplateFD pState t w = (r, t', w') \<Longrightarrow>
   (renders w < renders w') = (\<exists>a b. EvRender a b \<in> set (new_events w w'))"
  by (auto simp: PrintTemplateFD_def Let_def new_events_def renders_def
        split: option.splits prod.splits if_splits
        dest!: os_open_trace TEMPLATE_FileToFile_trace)

text \<open>
  C6. With \<open>keep_open\<close> off, a call of \<open>PrintTemplateFD\<close> in which the rendering
  engine was called (a render attempt: the count of engine calls has grown, which is
  to say the call logged a render event) leaves the sink closed, whatever status the
  engine returned: \<open>fd = -1\<close>, \<open>close\<close> was called on the destination descriptor
  that the engine wrote to, and that descriptor is no longer open; the source
  descriptor is closed as well. With \<open>keep_open\<close> on, a call that returns \<open>EOK\<close>
  on a sink that was closed or held a live descriptor leaves the sink holding a live
  descriptor, and it is the one the sink held before if it held one: over
  consecutive successful renders the handle stays the same open descriptor.
\<close>

theorem PrintTemplateFD_keep_open_policy:
  "PrintTemplateFD pState t w = (r, t', w') \<Longrightarrow>
   (keep_open t = False \<longrightarrow> renders w < renders w' \<longrightarrow>
      fd t' = -1 \<and>
      (\<exists>src dst. EvRender src dst \<in> set (new_events w w') \<and>
         EvClose dst \<in> set (new_events w w') \<and> dst \<notin> fst ` set (descs w'))) \<and>
   (keep_open t = False \<longrightarrow> EvRender a b \<in> set (new_events w w') \<longrightarrow>
      fd t' = -1 \<and> EvClose b \<in> set (new_events w w') \<and> b \<notin> fst ` set (descs w')) \<and>
   (EvRender a b \<in> set (new_events w w') \<longrightarrow>
      renders w < renders w' \<and> EvClose a \<in> set (new_events w w') \<and>
      a \<notin> fst ` set (descs w')) \<and>
   (keep_open t \<longrightarrow> r = EOK \<longrightarrow> (fd t = -1 \<or> fd t \<in> fst ` set (descs w)) \<longrightarrow>
      0 < fd t' \<and> fd t' \<in> fst ` set (descs w') \<and> (fd t \<noteq> -1 \<longrightarrow> fd t' = fd t))"
proof -
  assume call: "PrintTemplateFD pState t w = (r, t', w')"
  note ev = PrintTemplateFD_render_event [OF call]
  have c1: "keep_open t = False \<longrightarrow> renders w < renders w' \<longrightarrow>
      fd t' = -1 \<and>
      (\<exists>src dst. EvRender src dst \<in> set (new_events w w') \<and>
         EvClose dst \<in> set (new_events w w') \<and> dst \<notin> fst ` set (descs w'))"
    using ev PrintTemplateFD_closes_destination [OF call] by blast
  have c2: "keep_open t = False \<longrightarrow> EvRender a b \<in> set (new_events w w') \<longrightarrow>
      fd t' = -1 \<and> EvClose b \<in> set (new_events w w') \<and> b \<notin> fst ` set (descs w')"
    using PrintTemplateFD_closes_destination [OF call] by blast
  have c3: "EvRender a b \<in> set (new_events w w') \<longrightarrow>
      renders w < renders w' \<and> EvClose a \<in> set (new_events w w') \<and>
      a \<notin> fst ` set (descs w')"
    using ev PrintTemplateFD_closes_source [OF call] by blast
  have c4: "keep_open t \<longrightarrow> r = EOK \<longrightarrow> (fd t = -1 \<or> fd t \<in> fst ` set (descs w)) \<longrightarrow>
      0 < fd t' \<and> fd t' \<in> fst ` set (descs w') \<and> (fd t \<noteq> -1 \<longrightarrow> fd t' = fd t)"
    using PrintTemplateFD_stays_open [OF call] by blast
  from c1 c2 c3 c4 show ?thesis by blast
qed

theorem PrintTemplateFD_keep_open_policy_witness:
  "renders ex_world < renders (snd (snd (PrintTemplateFD ex_state ex_fd_once ex_world))) \<and>
   EvRender 4 5
     \<in> set (new_events ex_world (snd (snd (PrintTemplateFD ex_state ex_fd_once ex_world)))) \<and>
   fd (fst (snd (PrintTemplateFD ex_state ex_fd_once ex_world))) = -1 \<and>
   EvClose 5
     \<in> set (new_events ex_world (snd (snd (PrintTemplateFD ex_state ex_fd_once ex_world)))) \<and>
   5 \<notin> fst ` set (descs (snd (snd (PrintTemplateFD ex_state ex_fd_once ex_world)))) \<and>
   4 \<notin> fst ` set (descs (snd (snd (PrintTemplateFD ex_state ex_fd_once ex_world)))) \<and>
   fd (fst (snd (PrintTemplateFD ex_state ex_fd_kept ex_world))) = 5 \<and>
   fst (PrintTemplateFD ex_state
          (fst (snd (PrintTemplateFD ex_state ex_fd_kept ex_world)))
          (snd (snd (PrintTemplateFD ex_state ex_fd_kept ex_world)))) = EOK \<and>
   fd (fst (snd (PrintTemplateFD ex_state
          (fst (snd (PrintTemplateFD ex_state ex_fd_kept ex_world)))
          (snd (snd (PrintTemplateFD ex_state ex_fd_kept ex_world)))))) = 5 \<and>
   5 \<in> fst ` set (descs (snd (snd (PrintTemplateFD ex_state
          (fst (snd (PrintTemplateFD ex_state ex_fd_kept ex_world)))
          (snd (snd (PrintTemplateFD ex_state ex_fd_kept ex_world)))))))"
  using PrintTemplateFD_keep_open_policy
          [of ex_state ex_fd_once ex_world
              "fst (PrintTemplateFD ex_state ex_fd_once ex_world)"
              "fst (snd (PrintTemplateFD ex_state ex_fd_once ex_world))"
              "snd (snd (PrintTemplateFD ex_state ex_fd_once ex_world))" 4 5]
        PrintTemplateFD_keep_open_policy
          [of ex_state
              "fst (snd (PrintTemplateFD ex_state ex_fd_kept ex_world))"
              "snd (snd (PrintTemplateFD ex_state ex_fd_kept ex_world))"
              "fst (PrintTemplateFD ex_state
                 (fst (snd (PrintTemplateFD ex_state ex_fd_kept ex_world)))
                 (snd (snd (PrintTemplateFD ex_state ex_fd_kept ex_world))))"
              "fst (snd (PrintTemplateFD ex_state
                 (fst (snd (PrintTemplateFD ex_state ex_fd_kept ex_world)))
                 (snd (snd (PrintTemplateFD ex_state ex_fd_kept ex_world)))))"
              "snd (snd (PrintTemplateFD ex_state
                 (fst (snd (PrintTemplateFD ex_state ex_fd_kept ex_world)))
                 (snd (snd (PrintTemplateFD ex_state ex_fd_kept ex_world)))))" 4 5]
  by (simp add: PrintTemplateFD_def renders_def new_events_def ex_fd_once_def ex_fd_kept_def
        ex_defs os_defs errno_defs Let_def)

section \<open>The queue sink: closing and failing to open\<close>

lemma PrintTemplateMQ_send_events:
  assumes "PrintTemplateMQ_send pState t q w = (r, t', w')"
  shows "trace w' = trace w @ new_events w w' \<and>
     (EvMqSend d m rc \<in> set (new_events w w') \<longrightarrow> (rc \<noteq> 0 \<or> keep_open t = False) \<longrightarrow>
        mq t' = -1 \<and> EvMqClose d \<in> set (new_events w w') \<and> d \<notin> fst ` set (descs w')) \<and>
     (EvMqOpen q' d' \<in> set (new_events w w') \<longrightarrow> d' \<le> 0 \<longrightarrow>
        r = EBADF \<and> filter is_send (new_events w w') = [] \<and> mq t' \<le> 0)"
  using assms
  by (auto simp: PrintTemplateMQ_send_def os_mq_open_def os_mq_send_def os_mq_close_def
        log_event_def VARFP_GetData_def new_events_def Let_def errno_defs
        split: option.splits prod.splits if_splits Desc.splits)

text \<open>
  The four ways through \<open>PrintTemplateMQ\<close>: nothing is done; the template file
  does not open; the engine fails; the engine succeeds and the send block runs.
\<close>

lemma PrintTemplateMQ_cases:
  assumes "PrintTemplateMQ pState t w = (r, t', w')"
  obtains (skip) "w' = w"
    | (nosrc) src d1 where "trace w' = trace w @ [EvPrintf src, EvOpen src [O_RDONLY] d1]"
    | (norender) src sfd where
        "trace w' = trace w @ [EvPrintf src, EvOpen src [O_RDONLY] sfd,
           EvLseek (varFd pState), EvRender sfd (varFd pState), EvClose sfd]"
    | (send) src dst sfd w3 w5 where
        "trace w3 = trace w @ [EvPrintf src, EvOpen src [O_RDONLY] sfd,
           EvLseek (varFd pState), EvRender sfd (varFd pState)]"
        "PrintTemplateMQ_send pState t dst w3 = (r, t', w5)"
        "w' = os_close sfd w5"
  using assms
  by (auto simp: PrintTemplateMQ_def Let_def
        split: option.splits prod.splits if_splits
        dest!: os_open_trace TEMPLATE_FileToFile_trace)

lemma PrintTemplateMQ_closes:
  assumes call: "PrintTemplateMQ pState t w = (r, t', w')"
  shows "(EvMqSend d m rc \<in> set (new_events w w') \<longrightarrow> (rc \<noteq> 0 \<or> keep_open t = False) \<longrightarrow>
            mq t' = -1 \<and> EvMqClose d \<in> set (new_events w w') \<and>
            d \<notin> fst ` set (descs w')) \<and>
         (EvMqOpen q' d' \<in> set (new_events w w') \<longrightarrow> d' \<le> 0 \<longrightarrow>
            r = EBADF \<and> sends w' = sends w \<and> mq t' \<le> 0)"
  using call
proof (cases rule: PrintTemplateMQ_cases)
  case skip
  then show ?thesis by (simp add: new_events_def)
next
  case (nosrc src d1)
  from new_eventsI [OF this] show ?thesis by simp
next
  case (norender src sfd)
  from new_eventsI [OF this] show ?thesis by simp
next
  case (send src dst sfd w3 w5)
  note blk = PrintTemplateMQ_send_events [OF send(2), of d m rc q' d']
  from blk have tr5: "trace w5 = trace w3 @ new_events w3 w5" by simp
  have "trace w' = trace w @ ([EvPrintf src, EvOpen src [O_RDONLY] sfd,
           EvLseek (varFd pState), EvRender sfd (varFd pState)]
             @ new_events w3 w5 @ [EvClose sfd])"
    using send(1,3) tr5 by simp
  note ne = new_eventsI [OF this]
  have cnt: "sends w' = sends w + length (filter is_send (new_events w3 w5))"
    using send(1,3) tr5 by (simp add: sends_def)
  from blk show ?thesis
    unfolding ne cnt using send(3) by auto
qed

text \<open>
  With \<open>keep_open\<close> off, a sink that is closed when the call starts is closed when
  it ends, as long as the scratch buffer exists.
\<close>

lemma PrintTemplateMQ_send_stays_closed:
  "PrintTemplateMQ_send pState t q w = (r, t', w') \<Longrightarrow> keep_open t = False \<Longrightarrow>
   mq t \<le> 0 \<Longrightarrow> pVarFP pState = Some n \<Longrightarrow> map_of (files w) n = Some c \<Longrightarrow> mq t' \<le> 0"
  by (auto simp: PrintTemplateMQ_send_def os_mq_open_def Let_def VARFP_GetData_def
        log_event_def split: option.splits prod.splits if_splits)

lemma PrintTemplateMQ_stays_closed:
  assumes call: "PrintTemplateMQ pState t w = (r, t', w')"
    and keep: "keep_open t = False" and closed: "mq t \<le> 0"
    and buf: "pVarFP pState = Some n" "map_of (files w) n = Some c"
  shows "mq t' \<le> 0"
proof (cases "\<exists>src dst sfd w1 w3. templateFileName t = Some src \<and> target t = Some dst \<and>
    0 < varFd pState \<and> 0 < sfd \<and>
    os_open src [O_RDONLY] (log_event (EvPrintf src) w) = (sfd, w1) \<and>
    TEMPLATE_FileToFile (hVarServer pState) sfd (varFd pState)
      (os_lseek_set (varFd pState) 0 w1) = (EOK, w3)")
  case False
  with call closed show ?thesis
    by (auto simp: PrintTemplateMQ_def Let_def split: option.splits prod.splits if_splits)
next
  case True
  then obtain src dst sfd w1 w3 where
    nm: "templateFileName t = Some src" "target t = Some dst" "0 < varFd pState" "0 < sfd"
    and o: "os_open src [O_RDONLY] (log_event (EvPrintf src) w) = (sfd, w1)"
    and e: "TEMPLATE_FileToFile (hVarServer pState) sfd (varFd pState)
      (os_lseek_set (varFd pState) 0 w1) = (EOK, w3)"
    by blast
  from os_open_files [OF o, of n c] buf obtain c1 where "map_of (files w1) n = Some c1"
    by auto
  with TEMPLATE_FileToFile_files [OF e, of n c1]
  obtain c3 where c3: "map_of (files w3) n = Some c3"
    by auto
  from call nm o e obtain w5 where "PrintTemplateMQ_send pState t dst w3 = (r, t', w5)"
    by (auto simp: PrintTemplateMQ_def Let_def split: prod.splits)
  from PrintTemplateMQ_send_stays_closed [OF this keep closed buf(1) c3] show ?thesis .
qed

text \<open>
  C7. In a call of \<open>PrintTemplateMQ\<close>: if a message was sent on descriptor \<open>d\<close> and
  the send failed (\<open>rc \<noteq> 0\<close>) or \<open>keep_open\<close> is off, then the sink is closed
  (\<open>mq = -1\<close>), \<open>mq_close\<close> was called on \<open>d\<close>, and \<open>d\<close> is no longer an open
  descriptor. If the queue was opened and the open failed, the call returns
  \<open>EBADF\<close>, no send was made, and the sink is still closed. And with \<open>keep_open\<close>
  off, a sink that was closed before the call is closed after it on every path
  (the scratch buffer being there).
\<close>

theorem PrintTemplateMQ_close_policy:
  "PrintTemplateMQ pState t w = (r, t', w') \<Longrightarrow>
   (EvMqSend d m rc \<in> set (new_events w w') \<longrightarrow> (rc \<noteq> 0 \<or> keep_open t = False) \<longrightarrow>
      mq t' = -1 \<and> EvMqClose d \<in> set (new_events w w') \<and> d \<notin> fst ` set (descs w')) \<and>
   (EvMqOpen q' d' \<in> set (new_events w w') \<longrightarrow> d' \<le> 0 \<longrightarrow>
      r = EBADF \<and> sends w' = sends w \<and> mq t' \<le> 0) \<and>
   (keep_open t = False \<longrightarrow> mq t \<le> 0 \<longrightarrow> VARFP_GetData (pVarFP pState) w = Some c \<longrightarrow>
      mq t' \<le> 0)"
  using PrintTemplateMQ_closes [of pState t w r t' w' d m rc q' d']
        PrintTemplateMQ_stays_closed [of pState t w r t' w' _ c]
  by (auto simp: VARFP_GetData_def split: option.splits)

theorem PrintTemplateMQ_close_policy_witness:
  "EvMqSend 5 ''AAAAAAAA'' 0
     \<in> set (new_events ex_world (snd (snd (PrintTemplateMQ ex_state ex_mq_once ex_world)))) \<and>
   mq (fst (snd (PrintTemplateMQ ex_state ex_mq_once ex_world))) = -1 \<and>
   5 \<notin> fst ` set (descs (snd (snd (PrintTemplateMQ ex_state ex_mq_once ex_world)))) \<and>
   EvMqSend 5 ''AAAAAAAA'' (-1)
     \<in> set (new_events ex_world (snd (snd (PrintTemplateMQ ex_state ex_mq_tiny ex_world)))) \<and>
   fst (PrintTemplateMQ ex_state ex_mq_tiny ex_world) = EMSGSIZE \<and>
   mq (fst (snd (PrintTemplateMQ ex_state ex_mq_tiny ex_world))) = -1 \<and>
   EvMqOpen ''/noq'' (-1)
     \<in> set (new_events ex_world (snd (snd (PrintTemplateMQ ex_state ex_mq_none ex_world)))) \<and>
   fst (PrintTemplateMQ ex_state ex_mq_none ex_world) = EBADF \<and>
   sends (snd (snd (PrintTemplateMQ ex_state ex_mq_none ex_world))) = sends ex_world"
  using PrintTemplateMQ_close_policy
          [of ex_state ex_mq_once ex_world
              "fst (PrintTemplateMQ ex_state ex_mq_once ex_world)"
              "fst (snd (PrintTemplateMQ ex_state ex_mq_once ex_world))"
              "snd (snd (PrintTemplateMQ ex_state ex_mq_once ex_world))"
              5 "''AAAAAAAA''" 0 "''/q''" 5 "replicate 12 (CHR 0x00)"]
        PrintTemplateMQ_close_policy
          [of ex_state ex_mq_tiny ex_world
              "fst (PrintTemplateMQ ex_state ex_mq_tiny ex_world)"
              "fst (snd (PrintTemplateMQ ex_state ex_mq_tiny ex_world))"
              "snd (snd (PrintTemplateMQ ex_state ex_mq_tiny ex_world))"
              5 "''AAAAAAAA''" "-1" "''/tiny''" 5]
        PrintTemplateMQ_close_policy
          [of ex_state ex_mq_none ex_world
              "fst (PrintTemplateMQ ex_state ex_mq_none ex_world)"
              "fst (snd (PrintTemplateMQ ex_state ex_mq_none ex_world))"
              "snd (snd (PrintTemplateMQ ex_state ex_mq_none ex_world))"
              5 "''AAAAAAAA''" 0 "''/noq''" "-1"]
  by (simp add: PrintTemplateMQ_def PrintTemplateMQ_send_def new_events_def sends_def
        ex_mq_once_def ex_mq_tiny_def ex_mq_none_def ex_defs os_defs errno_defs Let_def)

end
